theory Spec2Isabelle
  imports Main "HOL-Library.Sublist"
begin

section \<open>JavaScript values\<close>

text \<open>
  The values that cross the dispatcher: payloads returned by the capability handlers,
  the optional \<^verbatim>\<open>arguments\<close> of a tool call, and whatever a handler throws.
  \<open>JError m\<close> is an object for which \<^verbatim>\<open>instanceof Error\<close> holds, with its
  \<^verbatim>\<open>message\<close> property \<open>m\<close> (a string, as TypeScript types it); \<open>JObj\<close> is a plain
  object, never an instance of \<^verbatim>\<open>Error\<close>, whatever fields it carries.
\<close>

datatype js_value =
    JUndefined
  | JNull
  | JBool bool
  | JNum int
  | JStr string
  | JArr "js_value list"
  | JObj "(string \<times> js_value) list"
  | JError string

type_synonym js_object = "(string \<times> js_value) list"

text \<open>A call of an external collaborator either returns a value or throws one.\<close>

datatype 'a outcome = Returns 'a | Throws js_value

text \<open>\<^verbatim>\<open>error instanceof Error\<close>\<close>

fun instanceof_Error :: "js_value \<Rightarrow> bool" where
  "instanceof_Error (JError m) = True"
| "instanceof_Error v = False"

text \<open>\<^verbatim>\<open>error instanceof Error ? error.message : 'Unknown error'\<close>\<close>

fun cause_text :: "js_value \<Rightarrow> string" where
  "cause_text (JError m) = m"
| "cause_text v = ''Unknown error''"

text \<open>
  Truthiness, as the operator \<^verbatim>\<open>||\<close> tests it: \<^verbatim>\<open>undefined\<close>, \<^verbatim>\<open>null\<close>,
  \<^verbatim>\<open>false\<close>, \<^verbatim>\<open>0\<close> and the empty string are falsy, every object is truthy.
\<close>

fun truthy :: "js_value \<Rightarrow> bool" where
  "truthy JUndefined = False"
| "truthy JNull = False"
| "truthy (JBool b) = b"
| "truthy (JNum n) = (n \<noteq> 0)"
| "truthy (JStr s) = (s \<noteq> [])"
| "truthy v = True"

definition js_or :: "js_value \<Rightarrow> js_value \<Rightarrow> js_value" where
  "js_or a b = (if truthy a then a else b)"

text \<open>Reading a property of an object: \<^verbatim>\<open>undefined\<close> when the object has no such field.\<close>

definition get_field :: "js_object \<Rightarrow> string \<Rightarrow> js_value" where
  "get_field obj k = (case map_of obj k of None \<Rightarrow> JUndefined | Some v \<Rightarrow> v)"

section \<open>Protocol dispatcher (src/mcp/server.ts, setupHandlers)\<close>

text \<open>
  The four request kinds, with the parameters the handlers read:
  \<^verbatim>\<open>request.params.uri\<close>, \<^verbatim>\<open>request.params.name\<close> and
  \<^verbatim>\<open>request.params.arguments\<close> (\<open>JUndefined\<close> when the caller omits it).
\<close>

datatype request =
    ListResources
  | ReadResource string
  | ListTools
  | CallTool string js_value

text \<open>
  The capability handlers are external collaborators: what each of their operations does
  when the dispatcher calls it. A tool result is an object; the dispatcher reads its
  \<^verbatim>\<open>content\<close> and \<^verbatim>\<open>isError\<close> fields.
\<close>

record handlers =
  listResources :: "js_value outcome"
  readResource :: "string \<Rightarrow> js_value outcome"
  listTools :: "js_value outcome"
  callTool :: "string \<Rightarrow> js_value \<Rightarrow> js_object outcome"

text \<open>What a request handler does besides returning: logger calls and the handler call.\<close>

datatype effect =
    LogDebug string
  | LogError string js_value
  | Call_listResources
  | Call_readResource string
  | Call_listTools
  | Call_callTool string js_value

text \<open>\<^verbatim>\<open>new McpError(code, message)\<close>, by its constructor arguments.\<close>

record mcp_error =
  code :: int
  message :: string

text \<open>
  Modelled from the spec: the constant \<^verbatim>\<open>ErrorCode.InternalError\<close> of the protocol SDK,
  which is imported by the source and not part of it; the spec gives its numeric value
  as -32603.
\<close>

definition InternalError :: int where
  "InternalError = - 32603"

type_synonym handler_result = "effect list \<times> (mcp_error + js_value)"

definition handleListResources :: "handlers \<Rightarrow> handler_result" where
  "handleListResources h =
     (case listResources h of
        Returns resources \<Rightarrow>
          ([LogDebug ''Handling list resources request'', Call_listResources],
           Inr (JObj [(''resources'', resources)]))
      | Throws error \<Rightarrow>
          ([LogDebug ''Handling list resources request'', Call_listResources,
            LogError ''Failed to list resources:'' error],
           Inl \<lparr>code = InternalError,
                message = ''Failed to list resources: '' @ cause_text error\<rparr>))"

definition handleReadResource :: "handlers \<Rightarrow> string \<Rightarrow> handler_result" where
  "handleReadResource h uri =
     (case readResource h uri of
        Returns content \<Rightarrow>
          ([LogDebug (''Handling read resource request for: '' @ uri), Call_readResource uri],
           Inr (JObj [(''contents'', JArr [content])]))
      | Throws error \<Rightarrow>
          ([LogDebug (''Handling read resource request for: '' @ uri), Call_readResource uri,
            LogError (''Failed to read resource '' @ uri @ '':'') error],
           Inl \<lparr>code = InternalError,
                message = ''Failed to read resource: '' @ cause_text error\<rparr>))"

definition handleListTools :: "handlers \<Rightarrow> handler_result" where
  "handleListTools h =
     (case listTools h of
        Returns tools \<Rightarrow>
          ([LogDebug ''Handling list tools request'', Call_listTools],
           Inr (JObj [(''tools'', tools)]))
      | Throws error \<Rightarrow>
          ([LogDebug ''Handling list tools request'', Call_listTools,
            LogError ''Failed to list tools:'' error],
           Inl \<lparr>code = InternalError,
                message = ''Failed to list tools: '' @ cause_text error\<rparr>))"

definition handleCallTool :: "handlers \<Rightarrow> string \<Rightarrow> js_value \<Rightarrow> handler_result" where
  "handleCallTool h name arguments =
     (case callTool h name (js_or arguments (JObj [])) of
        Returns result \<Rightarrow>
          ([LogDebug (''Handling tool call: '' @ name),
            Call_callTool name (js_or arguments (JObj []))],
           Inr (JObj [(''content'', get_field result ''content''),
                      (''isError'', get_field result ''isError'')]))
      | Throws error \<Rightarrow>
          ([LogDebug (''Handling tool call: '' @ name),
            Call_callTool name (js_or arguments (JObj [])),
            LogError (''Failed to call tool '' @ name @ '':'') error],
           Inl \<lparr>code = InternalError,
                message = ''Failed to call tool: '' @ cause_text error\<rparr>))"

text \<open>The handler registered for each request schema.\<close>

fun dispatch :: "handlers \<Rightarrow> request \<Rightarrow> handler_result" where
  "dispatch h ListResources = handleListResources h"
| "dispatch h (ReadResource uri) = handleReadResource h uri"
| "dispatch h ListTools = handleListTools h"
| "dispatch h (CallTool name arguments) = handleCallTool h name arguments"

section \<open>Stateless transport adapter (src/http/server.ts, POST /mcp)\<close>

text \<open>
  The calls the route handler makes on its collaborators, in the order it makes them:
  the transport constructor with its options object, the assignment of
  \<^verbatim>\<open>transport.onerror\<close>, \<^verbatim>\<open>res.on('close', ...)\<close>,
  \<^verbatim>\<open>mcpServer.connect(transport)\<close>,
  \<^verbatim>\<open>transport.handleRequest(req, res, req.body)\<close> with the body it passes, and
  \<^verbatim>\<open>transport.close()\<close>.
\<close>

datatype call =
    NewTransport js_object
  | SetOnError
  | ResOnClose
  | ServerConnect
  | TransportHandleRequest js_value
  | TransportClose

text \<open>
  What \<^verbatim>\<open>transport.close()\<close> gives back when it returns. The listener does not
  await it and drops the value, so all that matters is whether the value is a promise
  that rejects, and with what reason.
\<close>

datatype close_result = NoRejection | RejectedPromise js_value

text \<open>
  What the collaborators do in one HTTP exchange: the parsed request body, whether the
  transport constructor, \<^verbatim>\<open>connect\<close>, \<^verbatim>\<open>handleRequest\<close> and
  \<^verbatim>\<open>close\<close> return or throw, and whether the transport has started the response
  (\<^verbatim>\<open>res.headersSent\<close>) by the time \<^verbatim>\<open>handleRequest\<close> settles.
\<close>

record adapter_env =
  req_body :: js_value
  new_transport :: "unit outcome"
  server_connect :: "unit outcome"
  transport_handleRequest :: "unit outcome"
  handleRequest_sends_headers :: bool
  transport_close :: "close_result outcome"

text \<open>
  The route handler is an async function: it runs from its start to the first
  \<^verbatim>\<open>await\<close>, and from each \<^verbatim>\<open>await\<close> to the next one or to its end.
\<close>

datatype phase = NotStarted | AwaitConnect | AwaitHandleRequest | Finished

text \<open>The only listener the handler registers on the response.\<close>

datatype listener = CloseTransport

record http_response =
  status :: nat
  body :: js_value

text \<open>
  One request/response pair: where the handler stands, the calls made so far, the
  transports constructed, the listeners of the response's \<^verbatim>\<open>close\<close> event, whether
  \<^verbatim>\<open>transport.onerror\<close> is set, \<^verbatim>\<open>res.headersSent\<close>, the responses the
  handler itself wrote with \<^verbatim>\<open>res.status(...).json(...)\<close>, the calls of
  \<^verbatim>\<open>logger.error\<close>, and the reasons of the rejected promises that nothing
  handles.
\<close>

record exchange =
  phase :: phase
  calls :: "call list"
  sessions :: nat
  on_close :: "listener list"
  onerror_set :: bool
  headersSent :: bool
  sent :: "http_response list"
  errlog :: "(string \<times> js_value) list"
  unhandled :: "js_value list"

definition new_exchange :: exchange where
  "new_exchange =
     \<lparr>phase = NotStarted, calls = [], sessions = 0, on_close = [], onerror_set = False,
      headersSent = False, sent = [], errlog = [], unhandled = []\<rparr>"

definition internal_error_body :: js_value where
  "internal_error_body =
     JObj [(''jsonrpc'', JStr ''2.0''),
           (''error'', JObj [(''code'', JNum (- 32603)),
                             (''message'', JStr ''Internal server error'')]),
           (''id'', JNull)]"

text \<open>The \<^verbatim>\<open>catch\<close> block of the route handler.\<close>

definition catch_block :: "js_value \<Rightarrow> exchange \<Rightarrow> exchange" where
  "catch_block err s =
     (let s1 = s\<lparr>errlog := errlog s @ [(''Failed to handle MCP request'', err)]\<rparr>
      in if \<not> headersSent s1
         then s1\<lparr>sent := sent s1 @ [\<lparr>status = 500, body = internal_error_body\<rparr>],
                 headersSent := True, phase := Finished\<rparr>
         else s1\<lparr>phase := Finished\<rparr>)"

text \<open>The handler runs on to its next \<^verbatim>\<open>await\<close>, or to its end.\<close>

definition resume :: "adapter_env \<Rightarrow> exchange \<Rightarrow> exchange" where
  "resume env s =
     (case phase s of
        NotStarted \<Rightarrow>
          (let s1 = s\<lparr>calls := calls s @ [NewTransport [(''sessionIdGenerator'', JUndefined)]]\<rparr>
           in case new_transport env of
                Throws err \<Rightarrow> catch_block err s1
              | Returns u \<Rightarrow>
                  s1\<lparr>sessions := sessions s1 + 1,
                     calls := calls s1 @ [SetOnError, ResOnClose, ServerConnect],
                     onerror_set := True,
                     on_close := on_close s1 @ [CloseTransport],
                     phase := AwaitConnect\<rparr>)
      | AwaitConnect \<Rightarrow>
          (case server_connect env of
             Throws err \<Rightarrow> catch_block err s
           | Returns u \<Rightarrow>
               s\<lparr>calls := calls s @ [TransportHandleRequest (req_body env)],
                  phase := AwaitHandleRequest\<rparr>)
      | AwaitHandleRequest \<Rightarrow>
          (let s1 = s\<lparr>headersSent := (headersSent s \<or> handleRequest_sends_headers env)\<rparr>
           in case transport_handleRequest env of
                Throws err \<Rightarrow> catch_block err s1
              | Returns u \<Rightarrow> s1\<lparr>phase := Finished\<rparr>)
      | Finished \<Rightarrow> s)"

text \<open>
  The listener registered on \<^verbatim>\<open>close\<close>: its \<^verbatim>\<open>try\<close> and its \<^verbatim>\<open>catch\<close>.
  The \<^verbatim>\<open>catch\<close> receives what \<^verbatim>\<open>transport.close()\<close> throws; a promise it
  returns is neither awaited nor given a handler, so its rejection is unhandled.
\<close>

fun run_listener :: "adapter_env \<Rightarrow> listener \<Rightarrow> exchange \<Rightarrow> exchange" where
  "run_listener env CloseTransport s =
     (let s1 = s\<lparr>calls := calls s @ [TransportClose]\<rparr>
      in case transport_close env of
           Returns NoRejection \<Rightarrow> s1
         | Returns (RejectedPromise reason) \<Rightarrow> s1\<lparr>unhandled := unhandled s1 @ [reason]\<rparr>
         | Throws err \<Rightarrow>
             s1\<lparr>errlog := errlog s1 @ [(''Error closing Streamable HTTP transport'', err)]\<rparr>)"

text \<open>
  What can happen to an exchange: the handler runs on, the response emits
  \<^verbatim>\<open>close\<close> (every registered listener runs), or the transport reports an error to
  its \<^verbatim>\<open>onerror\<close> callback.
\<close>

datatype event = Resume | ResponseClose | TransportError js_value

fun step :: "adapter_env \<Rightarrow> event \<Rightarrow> exchange \<Rightarrow> exchange" where
  "step env Resume s = resume env s"
| "step env ResponseClose s = fold (run_listener env) (on_close s) s"
| "step env (TransportError err) s =
     (if onerror_set s
      then s\<lparr>errlog := errlog s @ [(''Streamable HTTP transport error'', err)]\<rparr>
      else s)"

fun run :: "adapter_env \<Rightarrow> event list \<Rightarrow> exchange \<Rightarrow> exchange" where
  "run env [] s = s"
| "run env (e # es) s = run env es (step env e s)"

text \<open>The calls of the handler's \<^verbatim>\<open>try\<close> block, without the teardown calls.\<close>

definition setup_calls :: "exchange \<Rightarrow> call list" where
  "setup_calls s = filter (\<lambda>c. c \<noteq> TransportClose) (calls s)"

definition teardowns :: "exchange \<Rightarrow> nat" where
  "teardowns s = count_list (calls s) TransportClose"


section \<open>Reachable exchanges\<close>

text \<open>How many more times, at most, the handler has to be resumed before it has ended.\<close>

fun remaining :: "phase \<Rightarrow> nat" where
  "remaining NotStarted = 3"
| "remaining AwaitConnect = 2"
| "remaining AwaitHandleRequest = 1"
| "remaining Finished = 0"

text \<open>The calls of a handler whose \<^verbatim>\<open>try\<close> block runs to its end.\<close>

definition full_order :: "adapter_env \<Rightarrow> call list" where
  "full_order env = [NewTransport [(''sessionIdGenerator'', JUndefined)], SetOnError, ResOnClose,
      ServerConnect, TransportHandleRequest (req_body env)]"

text \<open>
  What holds of an exchange at each point of the handler: before it starts, at each
  \<^verbatim>\<open>await\<close>, and after its end, by the step that failed, if any.
\<close>

definition consistent :: "adapter_env \<Rightarrow> exchange \<Rightarrow> bool" where
  "consistent env s =
     (case phase s of
        NotStarted \<Rightarrow>
          calls s = [] \<and> sessions s = 0 \<and> on_close s = [] \<and> sent s = [] \<and> \<not> headersSent s
      | AwaitConnect \<Rightarrow>
          new_transport env = Returns () \<and> setup_calls s = take 4 (full_order env)
          \<and> sessions s = 1 \<and> on_close s = [CloseTransport] \<and> sent s = [] \<and> \<not> headersSent s
      | AwaitHandleRequest \<Rightarrow>
          new_transport env = Returns () \<and> server_connect env = Returns ()
          \<and> setup_calls s = full_order env
          \<and> sessions s = 1 \<and> on_close s = [CloseTransport] \<and> sent s = [] \<and> \<not> headersSent s
      | Finished \<Rightarrow>
          (case new_transport env of
             Throws e \<Rightarrow>
               setup_calls s = take 1 (full_order env) \<and> sessions s = 0 \<and> on_close s = []
               \<and> sent s = [\<lparr>status = 500, body = internal_error_body\<rparr>]
               \<and> (''Failed to handle MCP request'', e) \<in> set (errlog s)
           | Returns u \<Rightarrow>
               sessions s = 1 \<and> on_close s = [CloseTransport]
               \<and> (case server_connect env of
                     Throws e \<Rightarrow>
                       setup_calls s = take 4 (full_order env)
                       \<and> sent s = [\<lparr>status = 500, body = internal_error_body\<rparr>]
                       \<and> (''Failed to handle MCP request'', e) \<in> set (errlog s)
                   | Returns u \<Rightarrow>
                       setup_calls s = full_order env
                       \<and> (case transport_handleRequest env of
                             Throws e \<Rightarrow>
                               (''Failed to handle MCP request'', e) \<in> set (errlog s)
                               \<and> sent s = (if handleRequest_sends_headers env then []
                                           else [\<lparr>status = 500, body = internal_error_body\<rparr>])
                           | Returns u \<Rightarrow> sent s = []))))"

section \<open>Concrete collaborators\<close>

text \<open>Handlers whose every operation throws the same value.\<close>

definition throwing_handlers :: "js_value \<Rightarrow> handlers" where
  "throwing_handlers e =
     \<lparr>listResources = Throws e, readResource = (\<lambda>uri. Throws e),
      listTools = Throws e, callTool = (\<lambda>name arguments. Throws e)\<rparr>"

text \<open>
  Handlers that return: the list and read operations return \<open>v\<close>, the tool returns an
  object whose content echoes the name and the arguments it received, with the given
  \<^verbatim>\<open>isError\<close> field.
\<close>

definition echo_handlers :: "js_value \<Rightarrow> js_value \<Rightarrow> handlers" where
  "echo_handlers v flag =
     \<lparr>listResources = Returns v, readResource = (\<lambda>uri. Returns v),
      listTools = Returns v,
      callTool = (\<lambda>name arguments.
        Returns [(''content'', JArr [JStr name, arguments]), (''isError'', flag)])\<rparr>"

text \<open>An exchange in which the collaborators behave as given.\<close>

definition make_env ::
  "unit outcome \<Rightarrow> unit outcome \<Rightarrow> unit outcome \<Rightarrow> bool \<Rightarrow> close_result outcome
     \<Rightarrow> adapter_env" where
  "make_env c b p hs t =
     \<lparr>req_body = JObj [(''jsonrpc'', JStr ''2.0''), (''method'', JStr ''tools/list''),
                       (''id'', JNum 1)],
      new_transport = c, server_connect = b, transport_handleRequest = p,
      handleRequest_sends_headers = hs, transport_close = t\<rparr>"

section \<open>The dispatcher: failures\<close>

lemmas handler_defs =
  handleListResources_def handleReadResource_def handleListTools_def handleCallTool_def
  InternalError_def

lemmas adapter_eval =
  make_env_def new_exchange_def resume_def catch_block_def Let_def internal_error_body_def
  setup_calls_def teardowns_def

text \<open>
  C1, as the code has it. For each of the four request kinds, when the capability handler
  that the dispatcher invokes throws a value \<open>e\<close>, the dispatcher answers with a protocol
  error whose code is -32603 and whose message is the fixed prefix of the operation
  followed by the \<^verbatim>\<open>message\<close> of \<open>e\<close> when \<open>e\<close> is an Error object, also when that
  message is empty, and by the literal "Unknown error" when \<open>e\<close> is anything else, also
  when \<open>e\<close> carries a text.
\<close>

theorem dispatch_failure_envelope:
  "(listResources h = Throws e \<longrightarrow>
      snd (dispatch h ListResources) =
        Inl \<lparr>code = - 32603,
             message = ''Failed to list resources: '' @
               (case e of JError m \<Rightarrow> m | _ \<Rightarrow> ''Unknown error'')\<rparr>)
   \<and> (readResource h uri = Throws e \<longrightarrow>
      snd (dispatch h (ReadResource uri)) =
        Inl \<lparr>code = - 32603,
             message = ''Failed to read resource: '' @
               (case e of JError m \<Rightarrow> m | _ \<Rightarrow> ''Unknown error'')\<rparr>)
   \<and> (listTools h = Throws e \<longrightarrow>
      snd (dispatch h ListTools) =
        Inl \<lparr>code = - 32603,
             message = ''Failed to list tools: '' @
               (case e of JError m \<Rightarrow> m | _ \<Rightarrow> ''Unknown error'')\<rparr>)
   \<and> (callTool h name (js_or arguments (JObj [])) = Throws e \<longrightarrow>
      snd (dispatch h (CallTool name arguments)) =
        Inl \<lparr>code = - 32603,
             message = ''Failed to call tool: '' @
               (case e of JError m \<Rightarrow> m | _ \<Rightarrow> ''Unknown error'')\<rparr>)"
  by (cases e) (simp_all add: handler_defs)

theorem dispatch_failure_envelope_witness:
  "snd (dispatch (throwing_handlers (JError ''boom'')) ListResources) =
     Inl \<lparr>code = - 32603, message = ''Failed to list resources: boom''\<rparr>
   \<and> snd (dispatch (throwing_handlers (JError ''boom'')) (ReadResource ''autotask://companies'')) =
     Inl \<lparr>code = - 32603, message = ''Failed to read resource: boom''\<rparr>
   \<and> snd (dispatch (throwing_handlers (JError ''boom'')) ListTools) =
     Inl \<lparr>code = - 32603, message = ''Failed to list tools: boom''\<rparr>
   \<and> snd (dispatch (throwing_handlers (JError ''boom'')) (CallTool ''test_connection'' JUndefined)) =
     Inl \<lparr>code = - 32603, message = ''Failed to call tool: boom''\<rparr>
   \<and> snd (dispatch (throwing_handlers (JError [])) ListTools) =
     Inl \<lparr>code = - 32603, message = ''Failed to list tools: ''\<rparr>
   \<and> snd (dispatch (throwing_handlers JNull) (CallTool ''test_connection'' JUndefined)) =
     Inl \<lparr>code = - 32603, message = ''Failed to call tool: Unknown error''\<rparr>"
proof -
  have thrown:
    "listResources (throwing_handlers (JError ''boom'')) = Throws (JError ''boom'')"
    "readResource (throwing_handlers (JError ''boom'')) ''autotask://companies'' =
       Throws (JError ''boom'')"
    "listTools (throwing_handlers (JError ''boom'')) = Throws (JError ''boom'')"
    "callTool (throwing_handlers (JError ''boom'')) ''test_connection''
       (js_or JUndefined (JObj [])) = Throws (JError ''boom'')"
    "listTools (throwing_handlers (JError [])) = Throws (JError [])"
    "callTool (throwing_handlers JNull) ''test_connection''
       (js_or JUndefined (JObj [])) = Throws JNull"
    by (simp_all add: throwing_handlers_def)
  from thrown
    dispatch_failure_envelope [of "throwing_handlers (JError ''boom'')" "JError ''boom''"
      "''autotask://companies''" "''test_connection''" JUndefined]
    dispatch_failure_envelope [of "throwing_handlers (JError [])" "JError []"
      "''autotask://companies''" "''test_connection''" JUndefined]
    dispatch_failure_envelope [of "throwing_handlers JNull" JNull
      "''autotask://companies''" "''test_connection''" JUndefined]
  show ?thesis by simp
qed

text \<open>
  C1 as the spec words it fails at both ends. \<^verbatim>\<open>new Error()\<close> is an error without a
  message, and the suffix is empty, not "Unknown error". A thrown string \<^verbatim>\<open>'boom'\<close>
  has its text at hand, and the suffix is "Unknown error", not that text.
\<close>

theorem dispatch_failure_cause_counterexample:
  "listResources (throwing_handlers (JError [])) = Throws (JError [])
   \<and> map_sum message id (snd (dispatch (throwing_handlers (JError [])) ListResources)) =
       Inl ''Failed to list resources: ''
   \<and> map_sum message id (snd (dispatch (throwing_handlers (JError [])) ListResources)) \<noteq>
       Inl ''Failed to list resources: Unknown error''
   \<and> listResources (throwing_handlers (JStr ''boom'')) = Throws (JStr ''boom'')
   \<and> map_sum message id (snd (dispatch (throwing_handlers (JStr ''boom'')) ListResources)) =
       Inl ''Failed to list resources: Unknown error''
   \<and> map_sum message id (snd (dispatch (throwing_handlers (JStr ''boom'')) ListResources)) \<noteq>
       Inl ''Failed to list resources: boom''"
  by (simp add: throwing_handlers_def handler_defs)

text \<open>
  C9. When the thrown value is not an Error object (a string, or a plain object that has
  a \<^verbatim>\<open>message\<close> field of its own, among others), the message of the protocol error
  is the prefix of the operation followed by exactly "Unknown error": only the
  \<^verbatim>\<open>instanceof Error\<close> test decides.
\<close>

theorem non_Error_cause_is_unknown:
  assumes "\<not> instanceof_Error e"
  shows
    "(listResources h = Throws e \<longrightarrow>
        map_sum message id (snd (dispatch h ListResources)) =
          Inl ''Failed to list resources: Unknown error'')
     \<and> (readResource h uri = Throws e \<longrightarrow>
        map_sum message id (snd (dispatch h (ReadResource uri))) =
          Inl ''Failed to read resource: Unknown error'')
     \<and> (listTools h = Throws e \<longrightarrow>
        map_sum message id (snd (dispatch h ListTools)) =
          Inl ''Failed to list tools: Unknown error'')
     \<and> (callTool h name (js_or arguments (JObj [])) = Throws e \<longrightarrow>
        map_sum message id (snd (dispatch h (CallTool name arguments))) =
          Inl ''Failed to call tool: Unknown error'')"
  using assms by (cases e) (simp_all add: handler_defs)

theorem non_Error_cause_is_unknown_witness:
  "\<not> instanceof_Error (JObj [(''message'', JStr ''boom'')])
   \<and> \<not> instanceof_Error (JStr ''boom'')
   \<and> map_sum message id
        (snd (dispatch (throwing_handlers (JObj [(''message'', JStr ''boom'')])) ListResources)) =
      Inl ''Failed to list resources: Unknown error''
   \<and> map_sum message id
        (snd (dispatch (throwing_handlers (JObj [(''message'', JStr ''boom'')]))
               (ReadResource ''autotask://tickets''))) =
      Inl ''Failed to read resource: Unknown error''
   \<and> map_sum message id
        (snd (dispatch (throwing_handlers (JStr ''boom'')) ListTools)) =
      Inl ''Failed to list tools: Unknown error''
   \<and> map_sum message id
        (snd (dispatch (throwing_handlers (JStr ''boom''))
               (CallTool ''search_tickets'' (JObj [])))) =
      Inl ''Failed to call tool: Unknown error''"
proof -
  have plain: "\<not> instanceof_Error (JObj [(''message'', JStr ''boom'')])"
    and str: "\<not> instanceof_Error (JStr ''boom'')"
    by simp_all
  have thrown:
    "listResources (throwing_handlers (JObj [(''message'', JStr ''boom'')])) =
       Throws (JObj [(''message'', JStr ''boom'')])"
    "readResource (throwing_handlers (JObj [(''message'', JStr ''boom'')])) ''autotask://tickets'' =
       Throws (JObj [(''message'', JStr ''boom'')])"
    "listTools (throwing_handlers (JStr ''boom'')) = Throws (JStr ''boom'')"
    "callTool (throwing_handlers (JStr ''boom'')) ''search_tickets''
       (js_or (JObj []) (JObj [])) = Throws (JStr ''boom'')"
    by (simp_all add: throwing_handlers_def)
  from thrown plain str
    non_Error_cause_is_unknown [OF plain,
      of "throwing_handlers (JObj [(''message'', JStr ''boom'')])"
         "''autotask://tickets''" "''search_tickets''" "JObj []"]
    non_Error_cause_is_unknown [OF str,
      of "throwing_handlers (JStr ''boom'')" "''autotask://tickets''" "''search_tickets''"
         "JObj []"]
  show ?thesis by blast
qed

text \<open>
  C6, as the code has it. When the list operation of the tool handler throws, the message
  of the protocol error is "Failed to list tools: " followed by the cause text (the
  message of the thrown Error object, or "Unknown error"); it is never the bare literal
  "Failed to list tools".
\<close>

theorem list_tools_failure_message:
  assumes "listTools h = Throws e"
  shows "\<exists>err. snd (dispatch h ListTools) = Inl err
           \<and> message err = ''Failed to list tools: '' @ cause_text e
           \<and> message err \<noteq> ''Failed to list tools''"
  using assms by (simp add: handler_defs)

theorem list_tools_failure_message_witness:
  "listTools (throwing_handlers (JError ''timeout'')) = Throws (JError ''timeout'')
   \<and> (\<exists>err. snd (dispatch (throwing_handlers (JError ''timeout'')) ListTools) = Inl err
          \<and> message err = ''Failed to list tools: timeout''
          \<and> message err \<noteq> ''Failed to list tools'')"
proof -
  have thrown: "listTools (throwing_handlers (JError ''timeout'')) = Throws (JError ''timeout'')"
    by (simp add: throwing_handlers_def)
  from list_tools_failure_message [OF thrown] thrown show ?thesis by simp
qed

text \<open>
  The claim as the spec words it, that the message is the literal "Failed to list tools",
  fails when the tool handler throws \<^verbatim>\<open>new Error('timeout')\<close>.
\<close>

theorem list_tools_literal_message_counterexample:
  "listTools (throwing_handlers (JError ''timeout'')) = Throws (JError ''timeout'')
   \<and> map_sum message id (snd (dispatch (throwing_handlers (JError ''timeout'')) ListTools)) =
       Inl ''Failed to list tools: timeout''
   \<and> map_sum message id (snd (dispatch (throwing_handlers (JError ''timeout'')) ListTools)) \<noteq>
       Inl ''Failed to list tools''"
  by (simp add: throwing_handlers_def handler_defs)

section \<open>The dispatcher: successful calls\<close>

text \<open>
  C4. When the invoked capability handler returns, the dispatcher's result is an object
  of exactly this shape: \<^verbatim>\<open>{resources: r}\<close> for list_resources,
  \<^verbatim>\<open>{contents: [item]}\<close> for read_resource, \<^verbatim>\<open>{tools: t}\<close> for list_tools, and
  \<^verbatim>\<open>{content: result.content, isError: result.isError}\<close> for call_tool, where the
  values are the ones the handler returned.
\<close>

theorem dispatch_success_shape:
  "(listResources h = Returns resources \<longrightarrow>
      snd (dispatch h ListResources) = Inr (JObj [(''resources'', resources)]))
   \<and> (readResource h uri = Returns item \<longrightarrow>
      snd (dispatch h (ReadResource uri)) = Inr (JObj [(''contents'', JArr [item])]))
   \<and> (listTools h = Returns tools \<longrightarrow>
      snd (dispatch h ListTools) = Inr (JObj [(''tools'', tools)]))
   \<and> (callTool h name (js_or arguments (JObj [])) = Returns result \<longrightarrow>
      snd (dispatch h (CallTool name arguments)) =
        Inr (JObj [(''content'', get_field result ''content''),
                   (''isError'', get_field result ''isError'')]))"
  by (simp add: handler_defs)

theorem dispatch_success_shape_witness:
  "snd (dispatch (echo_handlers (JArr [JStr ''a'', JStr ''b'']) (JBool False)) ListResources) =
     Inr (JObj [(''resources'', JArr [JStr ''a'', JStr ''b''])])
   \<and> snd (dispatch (echo_handlers (JArr [JStr ''a'', JStr ''b'']) (JBool False))
            (ReadResource ''autotask://companies/7'')) =
     Inr (JObj [(''contents'', JArr [JArr [JStr ''a'', JStr ''b'']])])
   \<and> snd (dispatch (echo_handlers (JArr [JStr ''a'', JStr ''b'']) (JBool False)) ListTools) =
     Inr (JObj [(''tools'', JArr [JStr ''a'', JStr ''b''])])
   \<and> snd (dispatch (echo_handlers (JArr [JStr ''a'', JStr ''b'']) (JBool False))
            (CallTool ''get_company_name'' (JObj [(''id'', JNum 7)]))) =
     Inr (JObj [(''content'', JArr [JStr ''get_company_name'', JObj [(''id'', JNum 7)]]),
                (''isError'', JBool False)])"
proof -
  let ?h = "echo_handlers (JArr [JStr ''a'', JStr ''b'']) (JBool False)"
  have returned:
    "listResources ?h = Returns (JArr [JStr ''a'', JStr ''b''])"
    "readResource ?h ''autotask://companies/7'' = Returns (JArr [JStr ''a'', JStr ''b''])"
    "listTools ?h = Returns (JArr [JStr ''a'', JStr ''b''])"
    "callTool ?h ''get_company_name'' (js_or (JObj [(''id'', JNum 7)]) (JObj [])) =
       Returns [(''content'', JArr [JStr ''get_company_name'', JObj [(''id'', JNum 7)]]),
                (''isError'', JBool False)]"
    by (simp_all add: echo_handlers_def js_or_def)
  from returned
    dispatch_success_shape [of ?h "JArr [JStr ''a'', JStr ''b'']" "''autotask://companies/7''"
      "JArr [JStr ''a'', JStr ''b'']" "JArr [JStr ''a'', JStr ''b'']" "''get_company_name''"
      "JObj [(''id'', JNum 7)]"
      "[(''content'', JArr [JStr ''get_company_name'', JObj [(''id'', JNum 7)]]),
        (''isError'', JBool False)]"]
  show ?thesis by (simp add: get_field_def)
qed

text \<open>
  C5. A tool result whose \<^verbatim>\<open>isError\<close> field is \<^verbatim>\<open>true\<close> is returned by the
  dispatcher as a result (content and isError as the tool gave them), not thrown as a
  protocol error.
\<close>

theorem tool_reported_failure_is_a_result:
  assumes "callTool h name (js_or arguments (JObj [])) = Returns result"
    and "get_field result ''isError'' = JBool True"
  shows "snd (dispatch h (CallTool name arguments)) =
           Inr (JObj [(''content'', get_field result ''content''), (''isError'', JBool True)])
         \<and> \<not> isl (snd (dispatch h (CallTool name arguments)))"
  using assms by (simp add: handler_defs)

theorem tool_reported_failure_is_a_result_witness:
  "callTool (echo_handlers JNull (JBool True)) ''create_ticket'' (js_or JUndefined (JObj [])) =
     Returns [(''content'', JArr [JStr ''create_ticket'', JObj []]), (''isError'', JBool True)]
   \<and> get_field [(''content'', JArr [JStr ''create_ticket'', JObj []]), (''isError'', JBool True)]
       ''isError'' = JBool True
   \<and> snd (dispatch (echo_handlers JNull (JBool True)) (CallTool ''create_ticket'' JUndefined)) =
       Inr (JObj [(''content'', JArr [JStr ''create_ticket'', JObj []]),
                  (''isError'', JBool True)])
   \<and> \<not> isl (snd (dispatch (echo_handlers JNull (JBool True))
                    (CallTool ''create_ticket'' JUndefined)))"
proof -
  have returned:
    "callTool (echo_handlers JNull (JBool True)) ''create_ticket'' (js_or JUndefined (JObj [])) =
       Returns [(''content'', JArr [JStr ''create_ticket'', JObj []]), (''isError'', JBool True)]"
    by (simp add: echo_handlers_def js_or_def)
  have flag:
    "get_field [(''content'', JArr [JStr ''create_ticket'', JObj []]), (''isError'', JBool True)]
       ''isError'' = JBool True"
    by (simp add: get_field_def)
  from tool_reported_failure_is_a_result [OF returned flag] returned flag
  show ?thesis by (simp add: get_field_def)
qed

text \<open>
  C7. A call_tool request without \<^verbatim>\<open>arguments\<close> is handled as one whose
  \<^verbatim>\<open>arguments\<close> is the empty object: in both cases the tool handler is called with
  the name and the empty object, and the logger calls and the result are the same.
\<close>

theorem omitted_arguments_default_to_empty:
  "dispatch h (CallTool name JUndefined) = dispatch h (CallTool name (JObj []))
   \<and> Call_callTool name (JObj []) \<in> set (fst (dispatch h (CallTool name JUndefined)))
   \<and> (\<forall>a. Call_callTool name a \<in> set (fst (dispatch h (CallTool name JUndefined)))
          \<longrightarrow> a = JObj [])"
  by (cases "callTool h name (JObj [])") (simp_all add: handler_defs js_or_def)

theorem omitted_arguments_default_to_empty_witness:
  "dispatch (echo_handlers JNull JUndefined) (CallTool ''test_connection'' JUndefined) =
     ([LogDebug ''Handling tool call: test_connection'',
       Call_callTool ''test_connection'' (JObj [])],
      Inr (JObj [(''content'', JArr [JStr ''test_connection'', JObj []]),
                 (''isError'', JUndefined)]))
   \<and> dispatch (echo_handlers JNull JUndefined) (CallTool ''test_connection'' (JObj [])) =
     ([LogDebug ''Handling tool call: test_connection'',
       Call_callTool ''test_connection'' (JObj [])],
      Inr (JObj [(''content'', JArr [JStr ''test_connection'', JObj []]),
                 (''isError'', JUndefined)]))"
proof -
  have right:
    "dispatch (echo_handlers JNull JUndefined) (CallTool ''test_connection'' (JObj [])) =
       ([LogDebug ''Handling tool call: test_connection'',
         Call_callTool ''test_connection'' (JObj [])],
        Inr (JObj [(''content'', JArr [JStr ''test_connection'', JObj []]),
                   (''isError'', JUndefined)]))"
    by (simp add: echo_handlers_def handler_defs js_or_def get_field_def)
  from omitted_arguments_default_to_empty [of "echo_handlers JNull JUndefined" "''test_connection''"]
  have "dispatch (echo_handlers JNull JUndefined) (CallTool ''test_connection'' JUndefined) =
        dispatch (echo_handlers JNull JUndefined) (CallTool ''test_connection'' (JObj []))"
    by (rule conjunct1)
  with right show ?thesis by simp
qed

section \<open>The adapter: reachable exchanges\<close>

lemma consistent_new: "consistent env new_exchange"
  by (simp add: consistent_def new_exchange_def)

lemma consistent_resume: "consistent env s \<Longrightarrow> consistent env (resume env s)"
  by (cases "phase s")
     (auto simp: consistent_def resume_def catch_block_def setup_calls_def full_order_def Let_def
           split: outcome.splits)

lemma fold_listener_fields:
  "phase (fold (run_listener env) ls s) = phase s
   \<and> sessions (fold (run_listener env) ls s) = sessions s
   \<and> on_close (fold (run_listener env) ls s) = on_close s
   \<and> onerror_set (fold (run_listener env) ls s) = onerror_set s
   \<and> headersSent (fold (run_listener env) ls s) = headersSent s
   \<and> sent (fold (run_listener env) ls s) = sent s
   \<and> setup_calls (fold (run_listener env) ls s) = setup_calls s
   \<and> set (errlog s) \<subseteq> set (errlog (fold (run_listener env) ls s))"
proof (induction ls arbitrary: s)
  case Nil
  show ?case by simp
next
  case (Cons l ls)
  have one: "phase (run_listener env l s) = phase s
   \<and> sessions (run_listener env l s) = sessions s
   \<and> on_close (run_listener env l s) = on_close s
   \<and> onerror_set (run_listener env l s) = onerror_set s
   \<and> headersSent (run_listener env l s) = headersSent s
   \<and> sent (run_listener env l s) = sent s
   \<and> setup_calls (run_listener env l s) = setup_calls s
   \<and> set (errlog s) \<subseteq> set (errlog (run_listener env l s))"
    by (cases l) (auto simp: setup_calls_def Let_def split: outcome.splits close_result.splits)
  from one Cons.IH [of "run_listener env l s"] show ?case by auto
qed

lemma consistent_step: "consistent env s \<Longrightarrow> consistent env (step env e s)"
proof (cases e)
  case Resume
  assume "consistent env s"
  with Resume show ?thesis by (simp add: consistent_resume)
next
  case ResponseClose
  assume c: "consistent env s"
  note f = fold_listener_fields [of env "on_close s" s]
  show ?thesis
  proof (cases "phase s")
    case NotStarted
    with c have "on_close s = []" by (simp add: consistent_def)
    with c ResponseClose show ?thesis by simp
  next
    case AwaitConnect
    with c f ResponseClose show ?thesis by (simp add: consistent_def)
  next
    case AwaitHandleRequest
    with c f ResponseClose show ?thesis by (simp add: consistent_def)
  next
    case Finished
    with c f ResponseClose show ?thesis
      by (auto simp: consistent_def split: outcome.splits)
  qed
next
  case (TransportError err)
  assume "consistent env s"
  with TransportError show ?thesis
    by (cases "phase s") (auto simp: consistent_def setup_calls_def split: outcome.splits)
qed

lemma consistent_run: "consistent env s \<Longrightarrow> consistent env (run env sched s)"
  by (induction sched arbitrary: s) (simp_all add: consistent_step)

lemma reachable_consistent: "consistent env (run env sched new_exchange)"
  by (rule consistent_run [OF consistent_new])


text \<open>Once the handler has started, only it moves the phase, and forwards.\<close>

lemma remaining_step:
  "remaining (phase (step env e s)) \<le> remaining (phase s) - (if e = Resume then 1 else 0)"
proof (cases e)
  case Resume
  then show ?thesis
    by (cases "phase s")
       (auto simp: resume_def catch_block_def Let_def split: outcome.splits)
next
  case ResponseClose
  with fold_listener_fields [of env "on_close s" s] show ?thesis by simp
next
  case (TransportError err)
  then show ?thesis by simp
qed

lemma handler_finishes:
  "remaining (phase s) \<le> count_list sched Resume \<Longrightarrow> phase (run env sched s) = Finished"
proof (induction sched arbitrary: s)
  case Nil
  then show ?case by (cases "phase s") simp_all
next
  case (Cons e es)
  from remaining_step [of env e s] Cons.prems
  have "remaining (phase (step env e s)) \<le> count_list es Resume"
    by (auto split: if_splits)
  then show ?case using Cons.IH by simp
qed

text \<open>After the first run of the handler the listeners of \<open>close\<close> never change.\<close>

lemma started_step:
  assumes "phase s \<noteq> NotStarted"
  shows "phase (step env e s) \<noteq> NotStarted \<and> on_close (step env e s) = on_close s
         \<and> sessions (step env e s) = sessions s"
proof (cases e)
  case Resume
  with assms show ?thesis
    by (cases "phase s")
       (auto simp: resume_def catch_block_def Let_def split: outcome.splits)
next
  case ResponseClose
  with assms fold_listener_fields [of env "on_close s" s] show ?thesis by simp
next
  case (TransportError err)
  with assms show ?thesis by simp
qed

lemma teardowns_step:
  assumes "phase s \<noteq> NotStarted" and "on_close s = [CloseTransport]"
  shows "teardowns (step env e s) = teardowns s + (if e = ResponseClose then 1 else 0)"
proof (cases e)
  case Resume
  with assms show ?thesis
    by (cases "phase s")
       (auto simp: teardowns_def resume_def catch_block_def Let_def split: outcome.splits)
next
  case ResponseClose
  with assms show ?thesis
    by (auto simp: teardowns_def Let_def split: outcome.splits close_result.splits)
next
  case (TransportError err)
  then show ?thesis by (simp add: teardowns_def)
qed

lemma teardowns_run:
  assumes "phase s \<noteq> NotStarted" and "on_close s = [CloseTransport]"
  shows "teardowns (run env sched s) = teardowns s + count_list sched ResponseClose"
  using assms
proof (induction sched arbitrary: s)
  case Nil
  show ?case by simp
next
  case (Cons e es)
  from started_step [OF Cons.prems(1), of env e] Cons.prems(2)
  have "phase (step env e s) \<noteq> NotStarted" and "on_close (step env e s) = [CloseTransport]"
    by simp_all
  from Cons.IH [OF this] teardowns_step [OF Cons.prems, of env e]
  show ?case by simp
qed















text \<open>In a list of setup calls, the registration of the hook comes before the bind.\<close>

lemma hook_before_connect:
  assumes "prefix (filter (\<lambda>c. c \<noteq> TransportClose) cs) (full_order env)"
    and "cs = ys @ ServerConnect # zs"
  shows "ResOnClose \<in> set ys"
proof -
  from assms obtain more where
    "full_order env =
       filter (\<lambda>c. c \<noteq> TransportClose) ys @
       ServerConnect # filter (\<lambda>c. c \<noteq> TransportClose) zs @ more"
    by (auto simp: prefix_def)
  then have "filter (\<lambda>c. c \<noteq> TransportClose) ys = take 3 (full_order env)"
    by (auto simp: full_order_def append_eq_Cons_conv Cons_eq_append_conv)
  then have "set (filter (\<lambda>c. c \<noteq> TransportClose) ys) = set (take 3 (full_order env))"
    by (rule arg_cong)
  then show ?thesis by (auto simp: full_order_def)
qed

lemma setup_calls_prefix: "prefix (setup_calls (run env sched new_exchange)) (full_order env)"
  using reachable_consistent [of env sched]
  by (cases "phase (run env sched new_exchange)")
     (auto simp: consistent_def full_order_def setup_calls_def split: outcome.splits)

lemma first_run:
  assumes "new_transport env = Returns ()"
  shows "phase (step env Resume new_exchange) = AwaitConnect
         \<and> on_close (step env Resume new_exchange) = [CloseTransport]
         \<and> sessions (step env Resume new_exchange) = 1
         \<and> teardowns (step env Resume new_exchange) = 0"
  using assms by (simp add: resume_def new_exchange_def teardowns_def)



lemma handler_runs_to_its_end:
  "3 \<le> count_list sched Resume \<Longrightarrow> phase (run env sched new_exchange) = Finished"
  by (rule handler_finishes) (simp add: new_exchange_def)

section \<open>The adapter: failures and teardown\<close>

text \<open>
  C2. In every call, once the handler has been resumed three times it has ended. If the
  transport constructor, the bind or the processing of the request threw while no
  response had been started, the handler wrote exactly one response: status 500 with
  the body
  \<^verbatim>\<open>{jsonrpc: "2.0", error: {code: -32603, message: "Internal server error"}, id: null}\<close>.
  If the processing threw after the transport had started the response, the handler
  wrote nothing. In both cases the failure is in the error log.
\<close>

theorem adapter_failure_response:
  assumes "3 \<le> count_list sched Resume"
  shows
    "phase (run env sched new_exchange) = Finished
     \<and> (new_transport env = Throws e \<or>
      new_transport env = Returns () \<and> server_connect env = Throws e \<or>
      new_transport env = Returns () \<and> server_connect env = Returns ()
        \<and> transport_handleRequest env = Throws e \<and> \<not> handleRequest_sends_headers env
      \<longrightarrow>
        sent (run env sched new_exchange) =
          [\<lparr>status = 500,
            body = JObj [(''jsonrpc'', JStr ''2.0''),
                         (''error'', JObj [(''code'', JNum (- 32603)),
                                           (''message'', JStr ''Internal server error'')]),
                         (''id'', JNull)]\<rparr>]
        \<and> (''Failed to handle MCP request'', e) \<in> set (errlog (run env sched new_exchange)))
     \<and> (new_transport env = Returns () \<and> server_connect env = Returns ()
        \<and> transport_handleRequest env = Throws e \<and> handleRequest_sends_headers env
      \<longrightarrow>
        sent (run env sched new_exchange) = []
        \<and> (''Failed to handle MCP request'', e) \<in> set (errlog (run env sched new_exchange)))"
proof -
  from assms have "phase (run env sched new_exchange) = Finished"
    by (rule handler_runs_to_its_end)
  with reachable_consistent [of env sched] show ?thesis
    by (auto simp: consistent_def internal_error_body_def)
qed

theorem adapter_failure_response_witness:
  "3 \<le> count_list [Resume, Resume, ResponseClose, Resume] Resume
   \<and> sent (run (make_env (Throws (JError ''no memory'')) (Returns ()) (Returns ()) True (Returns NoRejection))
            [Resume, Resume, ResponseClose, Resume] new_exchange) =
       [\<lparr>status = 500,
         body = JObj [(''jsonrpc'', JStr ''2.0''),
                      (''error'', JObj [(''code'', JNum (- 32603)),
                                        (''message'', JStr ''Internal server error'')]),
                      (''id'', JNull)]\<rparr>]
   \<and> sent (run (make_env (Returns ()) (Throws (JError ''already connected'')) (Returns ()) True (Returns NoRejection))
            [Resume, Resume, ResponseClose, Resume] new_exchange) =
       [\<lparr>status = 500,
         body = JObj [(''jsonrpc'', JStr ''2.0''),
                      (''error'', JObj [(''code'', JNum (- 32603)),
                                        (''message'', JStr ''Internal server error'')]),
                      (''id'', JNull)]\<rparr>]
   \<and> sent (run (make_env (Returns ()) (Returns ()) (Throws (JStr ''bad body'')) False (Returns NoRejection))
            [Resume, Resume, ResponseClose, Resume] new_exchange) =
       [\<lparr>status = 500,
         body = JObj [(''jsonrpc'', JStr ''2.0''),
                      (''error'', JObj [(''code'', JNum (- 32603)),
                                        (''message'', JStr ''Internal server error'')]),
                      (''id'', JNull)]\<rparr>]
   \<and> (''Failed to handle MCP request'', JStr ''bad body'') \<in>
       set (errlog (run (make_env (Returns ()) (Returns ()) (Throws (JStr ''bad body'')) False (Returns NoRejection))
            [Resume, Resume, ResponseClose, Resume] new_exchange))
   \<and> sent (run (make_env (Returns ()) (Returns ()) (Throws (JStr ''late'')) True (Returns NoRejection))
            [Resume, Resume, ResponseClose, Resume] new_exchange) = []
   \<and> (''Failed to handle MCP request'', JStr ''late'') \<in>
       set (errlog (run (make_env (Returns ()) (Returns ()) (Throws (JStr ''late'')) True (Returns NoRejection))
            [Resume, Resume, ResponseClose, Resume] new_exchange))
   \<and> phase (run (make_env (Returns ()) (Returns ()) (Throws (JStr ''late'')) True (Returns NoRejection))
            [Resume, Resume, ResponseClose, Resume] new_exchange) = Finished"
proof -
  let ?construct = "make_env (Throws (JError ''no memory'')) (Returns ()) (Returns ()) True (Returns NoRejection)"
  let ?bind = "make_env (Returns ()) (Throws (JError ''already connected'')) (Returns ()) True (Returns NoRejection)"
  let ?process = "make_env (Returns ()) (Returns ()) (Throws (JStr ''bad body'')) False (Returns NoRejection)"
  let ?late = "make_env (Returns ()) (Returns ()) (Throws (JStr ''late'')) True (Returns NoRejection)"
  have three: "3 \<le> count_list [Resume, Resume, ResponseClose, Resume] Resume"
    by simp
  have env1: "new_transport ?construct = Throws (JError ''no memory'')"
    by (simp add: make_env_def)
  have env2: "new_transport ?bind = Returns ()
      \<and> server_connect ?bind = Throws (JError ''already connected'')"
    by (simp add: make_env_def)
  have env3: "new_transport ?process = Returns () \<and> server_connect ?process = Returns ()
      \<and> transport_handleRequest ?process = Throws (JStr ''bad body'')
      \<and> \<not> handleRequest_sends_headers ?process"
    by (simp add: make_env_def)
  have env4: "new_transport ?late = Returns () \<and> server_connect ?late = Returns ()
      \<and> transport_handleRequest ?late = Throws (JStr ''late'') \<and> handleRequest_sends_headers ?late"
    by (simp add: make_env_def)
  from adapter_failure_response [OF three, of ?construct "JError ''no memory''"] env1
    adapter_failure_response [OF three, of ?bind "JError ''already connected''"] env2
    adapter_failure_response [OF three, of ?process "JStr ''bad body''"] env3
    adapter_failure_response [OF three, of ?late "JStr ''late''"] env4 three
  show ?thesis by blast
qed




section \<open>The adapter: order of the steps\<close>

text \<open>
  C8. At every point of a call, the calls the handler has made are an initial segment
  of: construct the transport with \<^verbatim>\<open>sessionIdGenerator: undefined\<close>, set
  \<^verbatim>\<open>onerror\<close>, register the listener of \<^verbatim>\<open>close\<close>, bind the transport to the
  protocol server, hand the request body to the transport. When the constructor and the
  bind return and the handler has ended, they are exactly this list.
\<close>

theorem adapter_step_order:
  "prefix (setup_calls (run env sched new_exchange))
     [NewTransport [(''sessionIdGenerator'', JUndefined)], SetOnError, ResOnClose,
      ServerConnect, TransportHandleRequest (req_body env)]
   \<and> (new_transport env = Returns () \<and> server_connect env = Returns ()
       \<and> phase (run env sched new_exchange) = Finished \<longrightarrow>
      setup_calls (run env sched new_exchange) =
        [NewTransport [(''sessionIdGenerator'', JUndefined)], SetOnError, ResOnClose,
         ServerConnect, TransportHandleRequest (req_body env)])"
  using setup_calls_prefix [of env sched] reachable_consistent [of env sched]
  by (auto simp: full_order_def consistent_def)

theorem adapter_step_order_witness:
  "phase (run (make_env (Returns ()) (Returns ()) (Returns ()) True (Returns NoRejection))
       [Resume, Resume, Resume, ResponseClose] new_exchange) = Finished
   \<and> setup_calls (run (make_env (Returns ()) (Returns ()) (Returns ()) True (Returns NoRejection))
       [Resume, Resume, Resume, ResponseClose] new_exchange) =
     [NewTransport [(''sessionIdGenerator'', JUndefined)], SetOnError, ResOnClose, ServerConnect,
      TransportHandleRequest
        (JObj [(''jsonrpc'', JStr ''2.0''), (''method'', JStr ''tools/list''), (''id'', JNum 1)])]"
proof -
  let ?env = "make_env (Returns ()) (Returns ()) (Returns ()) True (Returns NoRejection)"
  have ok: "new_transport ?env = Returns () \<and> server_connect ?env = Returns ()"
    and body: "req_body ?env =
      JObj [(''jsonrpc'', JStr ''2.0''), (''method'', JStr ''tools/list''), (''id'', JNum 1)]"
    by (simp_all add: make_env_def)
  have fin: "phase (run ?env [Resume, Resume, Resume, ResponseClose] new_exchange) = Finished"
    by (simp add: adapter_eval)
  from adapter_step_order [of ?env "[Resume, Resume, Resume, ResponseClose]"] ok fin body
  show ?thesis by simp
qed

text \<open>
  C10. In every call, the listener of \<^verbatim>\<open>close\<close> is registered before the bind is
  called. So when the bind throws, or the processing throws before the response has
  started, the handler answers 500 with the internal-error body, and the close of the
  response still calls \<^verbatim>\<open>transport.close()\<close>, once.
\<close>

theorem teardown_hook_precedes_bind:
  "(\<forall>ys zs. calls (run env sched new_exchange) = ys @ ServerConnect # zs \<longrightarrow> ResOnClose \<in> set ys)
   \<and> (new_transport env = Returns ()
       \<and> (server_connect env = Throws e
          \<or> server_connect env = Returns () \<and> transport_handleRequest env = Throws e
             \<and> \<not> handleRequest_sends_headers env)
       \<and> sched = Resume # rest \<and> count_list rest ResponseClose = 1
       \<and> phase (run env sched new_exchange) = Finished \<longrightarrow>
      sent (run env sched new_exchange) =
        [\<lparr>status = 500,
          body = JObj [(''jsonrpc'', JStr ''2.0''),
                       (''error'', JObj [(''code'', JNum (- 32603)),
                                         (''message'', JStr ''Internal server error'')]),
                       (''id'', JNull)]\<rparr>]
      \<and> teardowns (run env sched new_exchange) = 1)"
proof (intro conjI allI impI)
  fix ys zs
  assume "calls (run env sched new_exchange) = ys @ ServerConnect # zs"
  with setup_calls_prefix [of env sched] show "ResOnClose \<in> set ys"
    unfolding setup_calls_def by (rule hook_before_connect)
next
  assume a: "new_transport env = Returns ()
       \<and> (server_connect env = Throws e
          \<or> server_connect env = Returns () \<and> transport_handleRequest env = Throws e
             \<and> \<not> handleRequest_sends_headers env)
       \<and> sched = Resume # rest \<and> count_list rest ResponseClose = 1
       \<and> phase (run env sched new_exchange) = Finished"
  with reachable_consistent [of env sched]
  show "sent (run env sched new_exchange) =
        [\<lparr>status = 500,
          body = JObj [(''jsonrpc'', JStr ''2.0''),
                       (''error'', JObj [(''code'', JNum (- 32603)),
                                         (''message'', JStr ''Internal server error'')]),
                       (''id'', JNull)]\<rparr>]"
    by (auto simp: consistent_def internal_error_body_def)
next
  assume a: "new_transport env = Returns ()
       \<and> (server_connect env = Throws e
          \<or> server_connect env = Returns () \<and> transport_handleRequest env = Throws e
             \<and> \<not> handleRequest_sends_headers env)
       \<and> sched = Resume # rest \<and> count_list rest ResponseClose = 1
       \<and> phase (run env sched new_exchange) = Finished"
  then have ok: "new_transport env = Returns ()" by simp
  note fr = first_run [OF ok]
  from fr have started: "phase (step env Resume new_exchange) \<noteq> NotStarted"
    and hook: "on_close (step env Resume new_exchange) = [CloseTransport]"
    by simp_all
  from teardowns_run [OF started hook, of env rest] fr a
  show "teardowns (run env sched new_exchange) = 1" by simp
qed

theorem teardown_hook_precedes_bind_witness:
  "phase (run (make_env (Returns ()) (Throws (JError ''already connected'')) (Returns ()) False (Returns NoRejection))
       [Resume, Resume, ResponseClose] new_exchange) = Finished
   \<and> sent (run (make_env (Returns ()) (Throws (JError ''already connected'')) (Returns ()) False (Returns NoRejection))
       [Resume, Resume, ResponseClose] new_exchange) =
        [\<lparr>status = 500,
          body = JObj [(''jsonrpc'', JStr ''2.0''),
                       (''error'', JObj [(''code'', JNum (- 32603)),
                                         (''message'', JStr ''Internal server error'')]),
                       (''id'', JNull)]\<rparr>]
   \<and> teardowns (run (make_env (Returns ()) (Throws (JError ''already connected'')) (Returns ()) False (Returns NoRejection))
       [Resume, Resume, ResponseClose] new_exchange) = 1
   \<and> calls (run (make_env (Returns ()) (Throws (JError ''already connected'')) (Returns ()) False (Returns NoRejection))
       [Resume, Resume, ResponseClose] new_exchange) =
       [NewTransport [(''sessionIdGenerator'', JUndefined)], SetOnError, ResOnClose] @
       ServerConnect # [TransportClose]
   \<and> ResOnClose \<in> set [NewTransport [(''sessionIdGenerator'', JUndefined)], SetOnError, ResOnClose]"
proof -
  let ?env = "make_env (Returns ()) (Throws (JError ''already connected'')) (Returns ()) False (Returns NoRejection)"
  have env: "new_transport ?env = Returns ()"
    "server_connect ?env = Throws (JError ''already connected'')"
    by (simp_all add: make_env_def)
  have fin: "phase (run ?env [Resume, Resume, ResponseClose] new_exchange) = Finished"
    by (simp add: adapter_eval)
  have trace: "calls (run ?env [Resume, Resume, ResponseClose] new_exchange) =
       [NewTransport [(''sessionIdGenerator'', JUndefined)], SetOnError, ResOnClose] @
       ServerConnect # [TransportClose]"
    by (simp add: adapter_eval)
  have once: "count_list [Resume, ResponseClose] ResponseClose = 1" by simp
  from teardown_hook_precedes_bind [of ?env "[Resume, Resume, ResponseClose]"
      "JError ''already connected''" "[Resume, ResponseClose]"] env fin trace once
  show ?thesis by blast
qed

end
